theory Spec2Isabelle
  imports Main
begin

section \<open>Per-user topic visibility policies: the views of zerver/views/user_topics.py\<close>

text \<open>
  The module holds four request handlers (\<open>update_muted_topic\<close> with its two helpers
  \<open>mute_topic\<close> and \<open>unmute_topic\<close>, \<open>update_user_topic\<close> and
  \<open>get_stream_topic_counts\<close>). They read and write three tables: streams, messages
  and per-user topic overrides. The tables are lists of rows, a handler that can write
  returns its outcome together with the database it leaves behind, and every exception
  of the source is a value of \<open>error\<close>.
\<close>

subsection \<open>Data model\<close>

datatype visibility_policy = INHERIT | MUTED | UNMUTED | FOLLOWED

datatype error =
    AmbiguousOrMissingStreamReference
  | StreamNotFound
  | AccessDenied
  | NoOverrideToRemove string
  | InvalidPolicyValue
  | TopicTooLong
  | AssertionError

record Stream =
  Stream_id :: int
  Stream_name :: string
  Stream_recipient_id :: int

record Message =
  Message_recipient_id :: int
  Message_is_channel_message :: bool
  Message_subject :: string

record UserTopic =
  UserTopic_user_profile :: int
  UserTopic_stream :: int
  UserTopic_topic_name :: string
  UserTopic_visibility_policy :: visibility_policy
  UserTopic_last_updated :: int

text \<open>
  The database: the three tables and the access capability of the stream lookups, which
  the handlers treat as an opaque check on a user id and a stream id.
\<close>

record db =
  Streams :: "Stream list"
  Messages :: "Message list"
  UserTopics :: "UserTopic list"
  can_access :: "int \<Rightarrow> int \<Rightarrow> bool"

record topic_counts =
  counts_stream_id :: int
  total_topics :: nat
  followed_topics :: nat

datatype mute_op = Add | Remove

subsection \<open>Collaborators that live outside the module\<close>

text \<open>
  Modelled from the spec: the integer codes of \<open>UserTopic.VisibilityPolicy\<close>. The enum is
  declared in zerver/models; the spec lists its members in this order and speaks of the
  enum's valid integer codes.
\<close>

fun policy_code :: "visibility_policy \<Rightarrow> int" where
  "policy_code INHERIT = 0"
| "policy_code MUTED = 1"
| "policy_code UNMUTED = 2"
| "policy_code FOLLOWED = 3"

definition VisibilityPolicy_values :: "int list" where
  "VisibilityPolicy_values = map policy_code [INHERIT, MUTED, UNMUTED, FOLLOWED]"

definition policy_of_code :: "int \<Rightarrow> visibility_policy" where
  "policy_of_code v =
     (if v = 0 then INHERIT else if v = 1 then MUTED else if v = 2 then UNMUTED else FOLLOWED)"

text \<open>
  Modelled from the spec: \<open>check_int_in_validator\<close> of zerver/lib/typed_endpoint_validators,
  applied by the endpoint decorator to the \<open>visibility_policy\<close> argument before the
  handler's body runs. A value outside the list fails with \<open>InvalidPolicyValue\<close>.
\<close>

definition check_int_in_validator :: "int list \<Rightarrow> int \<Rightarrow> error + int" where
  "check_int_in_validator possible_values v =
     (if v \<in> set possible_values then Inr v else Inl InvalidPolicyValue)"

text \<open>
  Modelled from the spec: the endpoint decorator of zerver/lib/typed_endpoint applied to
  the annotation \<open>StringConstraints(max_length=MAX_TOPIC_NAME_LENGTH)\<close> of the
  \<open>topic\<close> argument. The decorator validates the arguments in the order of their
  declaration, before the handler's body runs. The spec bounds the length of a topic by
  this constant and names no error for a longer one; it is \<open>TopicTooLong\<close> here. The
  constant is declared in zerver/models/constants and is a parameter of the two
  endpoints that take a topic.
\<close>

definition check_max_length :: "nat \<Rightarrow> string \<Rightarrow> error + string" where
  "check_max_length max_length s =
     (if length s \<le> max_length then Inr s else Inl TopicTooLong)"

text \<open>
  Modelled from the spec: \<open>check_for_exactly_one_stream_arg\<close> of zerver/lib/streams.
  Exactly one of the two stream references must be given.
\<close>

definition check_for_exactly_one_stream_arg :: "int option \<Rightarrow> string option \<Rightarrow> error + unit" where
  "check_for_exactly_one_stream_arg stream_id stream =
     (if stream_id = None \<and> stream = None then Inl AmbiguousOrMissingStreamReference
      else if stream_id \<noteq> None \<and> stream \<noteq> None then Inl AmbiguousOrMissingStreamReference
      else Inr ())"

text \<open>
  Modelled from the spec: the stream lookups of zerver/lib/streams in \<open>Lookup\<close> mode. The
  stream is found by id or by name, then the user's access is checked; the lookup reads
  the database and never writes it. The source also receives the user's subscription
  from these two calls and does not use it.
\<close>

definition check_access :: "db \<Rightarrow> int \<Rightarrow> Stream option \<Rightarrow> error + Stream" where
  "check_access st user_profile found =
     (case found of
        None \<Rightarrow> Inl StreamNotFound
      | Some stream \<Rightarrow>
          if can_access st user_profile (Stream_id stream) then Inr stream else Inl AccessDenied)"

definition access_stream_by_id :: "db \<Rightarrow> int \<Rightarrow> int \<Rightarrow> error + Stream" where
  "access_stream_by_id st user_profile stream_id =
     check_access st user_profile (find (\<lambda>s. Stream_id s = stream_id) (Streams st))"

definition access_stream_by_name :: "db \<Rightarrow> int \<Rightarrow> string \<Rightarrow> error + Stream" where
  "access_stream_by_name st user_profile stream_name =
     check_access st user_profile (find (\<lambda>s. Stream_name s = stream_name) (Streams st))"

text \<open>
  Modelled from the spec: the lookups in \<open>RemovalLookup\<close> mode. The stream is resolved as
  in \<open>Lookup\<close> mode, and the user must in addition hold an override; otherwise the lookup
  fails with \<open>NoOverrideToRemove\<close> carrying the caller's message. The source hands these
  functions the user, the stream reference and the message, never the topic, so the
  check is the one the spec calls coarse-grained at the stream level: some override of
  the user on the stream.
\<close>

definition has_override_on_stream :: "db \<Rightarrow> int \<Rightarrow> Stream \<Rightarrow> bool" where
  "has_override_on_stream st user_profile stream =
     (filter (\<lambda>r. UserTopic_user_profile r = user_profile \<and> UserTopic_stream r = Stream_id stream)
        (UserTopics st) \<noteq> [])"

definition check_removal :: "db \<Rightarrow> int \<Rightarrow> string \<Rightarrow> error + Stream \<Rightarrow> error + Stream" where
  "check_removal st user_profile error_msg resolved =
     (case resolved of
        Inl e \<Rightarrow> Inl e
      | Inr stream \<Rightarrow>
          if has_override_on_stream st user_profile stream then Inr stream
          else Inl (NoOverrideToRemove error_msg))"

definition access_stream_to_remove_visibility_policy_by_id ::
  "db \<Rightarrow> int \<Rightarrow> int \<Rightarrow> string \<Rightarrow> error + Stream" where
  "access_stream_to_remove_visibility_policy_by_id st user_profile stream_id error_msg =
     check_removal st user_profile error_msg (access_stream_by_id st user_profile stream_id)"

definition access_stream_to_remove_visibility_policy_by_name ::
  "db \<Rightarrow> int \<Rightarrow> string \<Rightarrow> string \<Rightarrow> error + Stream" where
  "access_stream_to_remove_visibility_policy_by_name st user_profile stream_name error_msg =
     check_removal st user_profile error_msg (access_stream_by_name st user_profile stream_name)"

text \<open>
  Modelled from the spec: the identity of a topic name. Override lookup and removal
  compare topic names without regard to case or to leading and trailing whitespace.
\<close>

definition lower_char :: "char \<Rightarrow> char" where
  "lower_char c =
     (case map_of (zip ''ABCDEFGHIJKLMNOPQRSTUVWXYZ'' ''abcdefghijklmnopqrstuvwxyz'') c of
        Some d \<Rightarrow> d
      | None \<Rightarrow> c)"

definition is_space :: "char \<Rightarrow> bool" where
  "is_space c = (c \<in> set [CHR '' '', CHR 0x09, CHR 0x0A, CHR 0x0B, CHR 0x0C, CHR 0x0D])"

definition strip :: "string \<Rightarrow> string" where
  "strip s = rev (dropWhile is_space (rev (dropWhile is_space s)))"

definition normalize_topic :: "string \<Rightarrow> string" where
  "normalize_topic s = map lower_char (strip s)"

definition same_key :: "int \<Rightarrow> Stream \<Rightarrow> string \<Rightarrow> UserTopic \<Rightarrow> bool" where
  "same_key user_profile stream topic_name r =
     (UserTopic_user_profile r = user_profile \<and> UserTopic_stream r = Stream_id stream \<and>
      normalize_topic (UserTopic_topic_name r) = normalize_topic topic_name)"

text \<open>
  Modelled from the spec: \<open>do_set_user_topic_visibility_policy\<close> of
  zerver/actions/user_topics, the store's \<open>setPolicy\<close>. With \<open>INHERIT\<close> it deletes the
  record of the key, which is no error when there is none. With any other policy it
  updates the record in place, or creates it, and \<open>last_updated\<close> defaults to the
  current time \<open>now\<close>. It never fails.
\<close>

definition do_set_user_topic_visibility_policy ::
  "int \<Rightarrow> db \<Rightarrow> int \<Rightarrow> Stream \<Rightarrow> string \<Rightarrow> visibility_policy \<Rightarrow> int option \<Rightarrow> db" where
  "do_set_user_topic_visibility_policy now st user_profile stream topic_name visibility_policy last_updated =
     (let rows = UserTopics st;
          stamp = (case last_updated of None \<Rightarrow> now | Some t \<Rightarrow> t)
      in if visibility_policy = INHERIT
         then st\<lparr>UserTopics := filter (\<lambda>r. \<not> same_key user_profile stream topic_name r) rows\<rparr>
         else if filter (same_key user_profile stream topic_name) rows \<noteq> []
         then st\<lparr>UserTopics :=
                  map (\<lambda>r. if same_key user_profile stream topic_name r
                            then r\<lparr>UserTopic_visibility_policy := visibility_policy,
                                   UserTopic_last_updated := stamp\<rparr>
                            else r) rows\<rparr>
         else st\<lparr>UserTopics :=
                  rows @ [\<lparr>UserTopic_user_profile = user_profile,
                            UserTopic_stream = Stream_id stream,
                            UserTopic_topic_name = topic_name,
                            UserTopic_visibility_policy = visibility_policy,
                            UserTopic_last_updated = stamp\<rparr>]\<rparr>)"

subsection \<open>The handlers\<close>

text \<open>
  \<open>mute_topic\<close>: by name when a name is given, else by id, and the assertion fails when
  neither is given. The override is written only after the lookup has succeeded.
\<close>

definition mute_topic ::
  "int \<Rightarrow> db \<Rightarrow> int \<Rightarrow> int option \<Rightarrow> string option \<Rightarrow> string \<Rightarrow> int \<Rightarrow> (error + unit) \<times> db" where
  "mute_topic now st user_profile stream_id stream_name topic_name date_muted =
     (case (case stream_name of
              Some name \<Rightarrow> access_stream_by_name st user_profile name
            | None \<Rightarrow>
                (case stream_id of
                   None \<Rightarrow> Inl AssertionError
                 | Some i \<Rightarrow> access_stream_by_id st user_profile i)) of
        Inl e \<Rightarrow> (Inl e, st)
      | Inr stream \<Rightarrow>
          (Inr (),
           do_set_user_topic_visibility_policy now st user_profile stream topic_name MUTED
             (Some date_muted)))"

definition unmute_topic ::
  "int \<Rightarrow> db \<Rightarrow> int \<Rightarrow> int option \<Rightarrow> string option \<Rightarrow> string \<Rightarrow> (error + unit) \<times> db" where
  "unmute_topic now st user_profile stream_id stream_name topic_name =
     (let error_msg = ''Topic is not muted'' in
      case (case stream_name of
              Some name \<Rightarrow>
                access_stream_to_remove_visibility_policy_by_name st user_profile name error_msg
            | None \<Rightarrow>
                (case stream_id of
                   None \<Rightarrow> Inl AssertionError
                 | Some i \<Rightarrow>
                     access_stream_to_remove_visibility_policy_by_id st user_profile i error_msg)) of
        Inl e \<Rightarrow> (Inl e, st)
      | Inr stream \<Rightarrow>
          (Inr (),
           do_set_user_topic_visibility_policy now st user_profile stream topic_name INHERIT None))"

text \<open>
  \<open>update_muted_topic\<close>: the decorator validates the length of the topic; in the body
  the check on the two stream references comes first; \<open>op\<close> is one of the two
  literals the endpoint accepts, and the date of a mute is the current time.
\<close>

definition update_muted_topic ::
  "nat \<Rightarrow> int \<Rightarrow> db \<Rightarrow> int \<Rightarrow> int option \<Rightarrow> string option \<Rightarrow> string \<Rightarrow> mute_op \<Rightarrow>
     (error + unit) \<times> db" where
  "update_muted_topic MAX_TOPIC_NAME_LENGTH now st user_profile stream_id stream topic op =
     (case check_max_length MAX_TOPIC_NAME_LENGTH topic of
        Inl e \<Rightarrow> (Inl e, st)
      | Inr topic \<Rightarrow>
          (case check_for_exactly_one_stream_arg stream_id stream of
             Inl e \<Rightarrow> (Inl e, st)
           | Inr _ \<Rightarrow>
               (case op of
                  Add \<Rightarrow> mute_topic now st user_profile stream_id stream topic now
                | Remove \<Rightarrow> unmute_topic now st user_profile stream_id stream topic)))"

text \<open>
  \<open>update_user_topic\<close>: the decorator validates the length of the topic and then the
  policy code (\<open>topic\<close> is declared before \<open>visibility_policy\<close>); then the body
  resolves the stream (for removal when the policy is \<open>INHERIT\<close>) and sets the policy
  with no explicit \<open>last_updated\<close>.
\<close>

definition update_user_topic ::
  "nat \<Rightarrow> int \<Rightarrow> db \<Rightarrow> int \<Rightarrow> int \<Rightarrow> string \<Rightarrow> int \<Rightarrow> (error + unit) \<times> db" where
  "update_user_topic MAX_TOPIC_NAME_LENGTH now st user_profile stream_id topic visibility_policy =
     (case check_max_length MAX_TOPIC_NAME_LENGTH topic of
        Inl e \<Rightarrow> (Inl e, st)
      | Inr topic \<Rightarrow>
          (case check_int_in_validator VisibilityPolicy_values visibility_policy of
             Inl e \<Rightarrow> (Inl e, st)
           | Inr v \<Rightarrow>
               (case (if v = policy_code INHERIT
                      then access_stream_to_remove_visibility_policy_by_id st user_profile
                             stream_id ''Invalid channel ID''
                      else access_stream_by_id st user_profile stream_id) of
                  Inl e \<Rightarrow> (Inl e, st)
                | Inr stream \<Rightarrow>
                    (Inr (),
                     do_set_user_topic_visibility_policy now st user_profile stream topic
                       (policy_of_code v) None))))"

text \<open>
  \<open>get_stream_topic_counts\<close>: \<open>Stream.objects.get(id=...)\<close>, the distinct subjects of the
  channel messages of the stream's recipient, their number, and the number of override
  rows of the user on the stream with policy \<open>FOLLOWED\<close> whose topic name is one of
  those subjects (\<open>topic_name__in\<close>, an exact comparison). The handler only reads.
\<close>

definition topic_names_of :: "db \<Rightarrow> int \<Rightarrow> string list" where
  "topic_names_of st recipient_id =
     remdups (map Message_subject
       (filter (\<lambda>m. Message_recipient_id m = recipient_id \<and> Message_is_channel_message m)
          (Messages st)))"

definition get_stream_topic_counts :: "db \<Rightarrow> int \<Rightarrow> int \<Rightarrow> error + topic_counts" where
  "get_stream_topic_counts st user_profile stream_id =
     (case find (\<lambda>s. Stream_id s = stream_id) (Streams st) of
        None \<Rightarrow> Inl StreamNotFound
      | Some stream \<Rightarrow>
          (let recipient_id = Stream_recipient_id stream;
               topic_names = topic_names_of st recipient_id;
               total = length topic_names;
               followed =
                 length (filter
                   (\<lambda>r. UserTopic_user_profile r = user_profile \<and>
                        UserTopic_stream r = Stream_id stream \<and>
                        UserTopic_visibility_policy r = FOLLOWED \<and>
                        UserTopic_topic_name r \<in> set topic_names)
                   (UserTopics st))
           in Inr \<lparr>counts_stream_id = stream_id, total_topics = total,
                    followed_topics = followed\<rparr>))"

subsection \<open>What the specification speaks of\<close>

text \<open>
  The topics of a stream: the subjects of the channel messages addressed to the stream's
  recipient. A user follows a topic when the override of the key of that user, that
  stream and that topic has policy \<open>FOLLOWED\<close>; the key identifies topic names up to
  case and surrounding whitespace. \<open>follows_topic_verbatim\<close> is the narrower relation:
  the override row is stored under the topic name character for character.
\<close>

definition stream_topics :: "db \<Rightarrow> Stream \<Rightarrow> string set" where
  "stream_topics st stream =
     Message_subject `
       {m \<in> set (Messages st).
          Message_recipient_id m = Stream_recipient_id stream \<and> Message_is_channel_message m}"

definition follows_topic :: "db \<Rightarrow> int \<Rightarrow> Stream \<Rightarrow> string \<Rightarrow> bool" where
  "follows_topic st user_profile stream t =
     (\<exists>r \<in> set (UserTopics st).
        same_key user_profile stream t r \<and> UserTopic_visibility_policy r = FOLLOWED)"

definition follows_topic_verbatim :: "db \<Rightarrow> int \<Rightarrow> Stream \<Rightarrow> string \<Rightarrow> bool" where
  "follows_topic_verbatim st user_profile stream t =
     (\<exists>r \<in> set (UserTopics st).
        UserTopic_user_profile r = user_profile \<and> UserTopic_stream r = Stream_id stream \<and>
        UserTopic_topic_name r = t \<and> UserTopic_visibility_policy r = FOLLOWED)"

text \<open>
  The override table holds at most one row for a user, a stream and a topic name (the
  table's uniqueness constraint, which the store's operations keep).
\<close>

definition override_rows_unique :: "db \<Rightarrow> bool" where
  "override_rows_unique st =
     distinct (map (\<lambda>r. (UserTopic_user_profile r, UserTopic_stream r, UserTopic_topic_name r))
                 (UserTopics st))"

text \<open>
  \<open>override_set st st' u s t p at\<close>: \<open>st'\<close> is \<open>st\<close> after an upsert of the key
  \<open>(u, s, t)\<close> to policy \<open>p\<close> at time \<open>at\<close>. The key has a row, every row of the key
  carries the policy and the time, a row is added only when the key had none, and
  nothing else has changed.
\<close>

definition override_set ::
  "db \<Rightarrow> db \<Rightarrow> int \<Rightarrow> Stream \<Rightarrow> string \<Rightarrow> visibility_policy \<Rightarrow> int \<Rightarrow> bool" where
  "override_set st st' user_profile stream topic_name p at =
     (filter (same_key user_profile stream topic_name) (UserTopics st') \<noteq> [] \<and>
      list_all (\<lambda>r. UserTopic_visibility_policy r = p \<and> UserTopic_last_updated r = at)
        (filter (same_key user_profile stream topic_name) (UserTopics st')) \<and>
      length (filter (same_key user_profile stream topic_name) (UserTopics st')) =
        max 1 (length (filter (same_key user_profile stream topic_name) (UserTopics st))) \<and>
      filter (\<lambda>r. \<not> same_key user_profile stream topic_name r) (UserTopics st') =
        filter (\<lambda>r. \<not> same_key user_profile stream topic_name r) (UserTopics st) \<and>
      Streams st' = Streams st \<and> Messages st' = Messages st \<and> can_access st' = can_access st)"

text \<open>
  \<open>override_cleared st st' u s t\<close>: \<open>st'\<close> is \<open>st\<close> without the rows of the key
  \<open>(u, s, t)\<close>.
\<close>

definition override_cleared :: "db \<Rightarrow> db \<Rightarrow> int \<Rightarrow> Stream \<Rightarrow> string \<Rightarrow> bool" where
  "override_cleared st st' user_profile stream topic_name =
     (filter (same_key user_profile stream topic_name) (UserTopics st') = [] \<and>
      UserTopics st' = filter (\<lambda>r. \<not> same_key user_profile stream topic_name r) (UserTopics st) \<and>
      Streams st' = Streams st \<and> Messages st' = Messages st \<and> can_access st' = can_access st)"

subsection \<open>Example databases\<close>

text \<open>
  Two streams; the first has the topics a, b and c, and user 1 follows b there. Every
  user may access the first stream and nobody the second.
\<close>

definition general :: Stream where
  "general = \<lparr>Stream_id = 10, Stream_name = ''general'', Stream_recipient_id = 100\<rparr>"

definition staff :: Stream where
  "staff = \<lparr>Stream_id = 11, Stream_name = ''staff'', Stream_recipient_id = 101\<rparr>"

definition follows_b :: UserTopic where
  "follows_b =
     \<lparr>UserTopic_user_profile = 1, UserTopic_stream = 10, UserTopic_topic_name = ''b'',
      UserTopic_visibility_policy = FOLLOWED, UserTopic_last_updated = 3\<rparr>"

definition demo_db :: db where
  "demo_db =
     \<lparr>Streams = [general, staff],
      Messages =
        [\<lparr>Message_recipient_id = 100, Message_is_channel_message = True, Message_subject = ''a''\<rparr>,
         \<lparr>Message_recipient_id = 100, Message_is_channel_message = True, Message_subject = ''b''\<rparr>,
         \<lparr>Message_recipient_id = 100, Message_is_channel_message = True, Message_subject = ''a''\<rparr>,
         \<lparr>Message_recipient_id = 100, Message_is_channel_message = True, Message_subject = ''c''\<rparr>,
         \<lparr>Message_recipient_id = 101, Message_is_channel_message = True, Message_subject = ''d''\<rparr>],
      UserTopics = [follows_b],
      can_access = (\<lambda>u s. s = 10)\<rparr>"

text \<open>
  One stream with the single topic \<open>Release\<close>, and one override of user 1 with policy
  \<open>FOLLOWED\<close> stored under the given name.
\<close>

definition release_db :: "string \<Rightarrow> db" where
  "release_db stored_name =
     \<lparr>Streams = [general],
      Messages =
        [\<lparr>Message_recipient_id = 100, Message_is_channel_message = True,
          Message_subject = ''Release''\<rparr>],
      UserTopics =
        [\<lparr>UserTopic_user_profile = 1, UserTopic_stream = 10, UserTopic_topic_name = stored_name,
          UserTopic_visibility_policy = FOLLOWED, UserTopic_last_updated = 3\<rparr>],
      can_access = (\<lambda>u s. True)\<rparr>"

text \<open>A topic of 61 characters, one more than a bound of 60.\<close>

definition long_topic :: string where
  "long_topic = replicate 61 (CHR ''x'')"

section \<open>Properties\<close>

subsection \<open>Facts about the collaborators\<close>

lemma range_policy_code: "range policy_code = set VisibilityPolicy_values"
proof
  show "range policy_code \<subseteq> set VisibilityPolicy_values"
  proof
    fix v assume "v \<in> range policy_code"
    then obtain p where "v = policy_code p" by blast
    then show "v \<in> set VisibilityPolicy_values"
      by (cases p) (simp_all add: VisibilityPolicy_values_def)
  qed
  show "set VisibilityPolicy_values \<subseteq> range policy_code"
    by (auto simp: VisibilityPolicy_values_def simp del: policy_code.simps)
qed

lemma policy_of_code_inverse: "policy_of_code (policy_code p) = p"
  by (cases p) (simp_all add: policy_of_code_def)

lemma do_set_tables:
  "Streams (do_set_user_topic_visibility_policy now st u s t p lu) = Streams st"
  "Messages (do_set_user_topic_visibility_policy now st u s t p lu) = Messages st"
  "can_access (do_set_user_topic_visibility_policy now st u s t p lu) = can_access st"
  by (simp_all add: do_set_user_topic_visibility_policy_def Let_def)

lemma do_set_inherit_rows:
  "UserTopics (do_set_user_topic_visibility_policy now st u s t INHERIT lu) =
     filter (\<lambda>r. \<not> same_key u s t r) (UserTopics st)"
  by (simp add: do_set_user_topic_visibility_policy_def Let_def)

lemma do_set_inherit_cleared:
  "override_cleared st (do_set_user_topic_visibility_policy now st u s t INHERIT lu) u s t"
  by (simp add: override_cleared_def do_set_tables do_set_inherit_rows filter_empty_conv)

lemma same_key_update [simp]:
  "same_key u s t (r\<lparr>UserTopic_visibility_policy := p, UserTopic_last_updated := a\<rparr>) = same_key u s t r"
  by (simp add: same_key_def)

lemma filter_map_update_key:
  "filter (same_key u s t) (map (\<lambda>r. if same_key u s t r then f r else r) rows) =
     map f (filter (same_key u s t) rows)" if "\<And>r. same_key u s t (f r) = same_key u s t r"
  using that by (induction rows) auto

lemma filter_map_update_other:
  "filter (\<lambda>r. \<not> same_key u s t r) (map (\<lambda>r. if same_key u s t r then f r else r) rows) =
     filter (\<lambda>r. \<not> same_key u s t r) rows" if "\<And>r. same_key u s t (f r) = same_key u s t r"
  using that by (induction rows) auto

lemma do_set_upsert:
  assumes "p \<noteq> INHERIT"
  shows "override_set st (do_set_user_topic_visibility_policy now st u s t p lu) u s t p
           (case lu of None \<Rightarrow> now | Some a \<Rightarrow> a)"
proof (cases "filter (same_key u s t) (UserTopics st) = []")
  case True
  then have none: "filter (\<lambda>r. \<not> same_key u s t r) (UserTopics st) = UserTopics st"
    by (simp add: filter_empty_conv)
  from True assms show ?thesis
    by (simp add: override_set_def do_set_user_topic_visibility_policy_def Let_def same_key_def)
next
  case False
  then have len: "1 \<le> length (filter (same_key u s t) (UserTopics st))"
    by (cases "filter (same_key u s t) (UserTopics st)") simp_all
  from False assms len show ?thesis
    by (simp add: override_set_def do_set_user_topic_visibility_policy_def Let_def
        filter_map_update_key filter_map_update_other list_all_iff max_def)
qed

lemma do_set_keeps_unique:
  assumes uniq: "override_rows_unique st"
  shows "override_rows_unique (do_set_user_topic_visibility_policy now st u s t p lu)"
proof -
  let ?key = "\<lambda>r. (UserTopic_user_profile r, UserTopic_stream r, UserTopic_topic_name r)"
  let ?rows = "UserTopics st"
  from uniq have d: "distinct (map ?key ?rows)"
    by (simp add: override_rows_unique_def)
  show ?thesis
  proof (cases "p = INHERIT")
    case True
    with d show ?thesis
      by (simp add: override_rows_unique_def do_set_inherit_rows distinct_map_filter)
  next
    case False
    show ?thesis
    proof (cases "filter (same_key u s t) ?rows = []")
      case True
      have "(u, Stream_id s, t) \<notin> set (map ?key ?rows)"
      proof
        assume "(u, Stream_id s, t) \<in> set (map ?key ?rows)"
        then obtain r where "r \<in> set ?rows" and "same_key u s t r"
          by (auto simp: same_key_def)
        with True show False by (simp add: filter_empty_conv)
      qed
      with d True False show ?thesis
        by (simp add: override_rows_unique_def do_set_user_topic_visibility_policy_def Let_def)
    next
      case nonempty: False
      have "map ?key (map (\<lambda>r. if same_key u s t r
                            then r\<lparr>UserTopic_visibility_policy := p,
                                   UserTopic_last_updated := a\<rparr>
                            else r) ?rows) = map ?key ?rows" for a
        by (induction ?rows) auto
      with d nonempty False show ?thesis
        by (simp add: override_rows_unique_def do_set_user_topic_visibility_policy_def Let_def
            del: map_map)
    qed
  qed
qed

lemma set_topic_names_of:
  "set (topic_names_of st (Stream_recipient_id stream)) = stream_topics st stream"
  by (auto simp: topic_names_of_def stream_topics_def)

lemma length_topic_names_of:
  "length (topic_names_of st (Stream_recipient_id stream)) = card (stream_topics st stream)"
proof -
  have "length (topic_names_of st (Stream_recipient_id stream)) =
      card (set (topic_names_of st (Stream_recipient_id stream)))"
    unfolding topic_names_of_def by (simp only: length_remdups_card_conv set_remdups)
  then show ?thesis by (simp only: set_topic_names_of)
qed

lemma followed_rows_count:
  assumes uniq: "override_rows_unique st"
  shows "length (filter (\<lambda>r. UserTopic_user_profile r = u \<and> UserTopic_stream r = Stream_id stream \<and>
                        UserTopic_visibility_policy r = FOLLOWED \<and> UserTopic_topic_name r \<in> T)
                   (UserTopics st)) =
         card {t \<in> T. follows_topic_verbatim st u stream t}"
proof -
  let ?P = "\<lambda>r. UserTopic_user_profile r = u \<and> UserTopic_stream r = Stream_id stream \<and>
                 UserTopic_visibility_policy r = FOLLOWED \<and> UserTopic_topic_name r \<in> T"
  let ?key = "\<lambda>r. (UserTopic_user_profile r, UserTopic_stream r, UserTopic_topic_name r)"
  let ?rows = "UserTopics st"
  from uniq have d: "distinct ?rows" and inj: "inj_on ?key (set ?rows)"
    by (simp_all add: override_rows_unique_def distinct_map)
  have inj_name: "inj_on UserTopic_topic_name (set (filter ?P ?rows))"
  proof (rule inj_onI)
    fix a b
    assume a: "a \<in> set (filter ?P ?rows)" and b: "b \<in> set (filter ?P ?rows)"
      and eq: "UserTopic_topic_name a = UserTopic_topic_name b"
    then have "?key a = ?key b" by simp
    with inj a b show "a = b" by (auto dest: inj_onD)
  qed
  have img: "UserTopic_topic_name ` set (filter ?P ?rows) = {t \<in> T. follows_topic_verbatim st u stream t}"
    by (auto simp: follows_topic_verbatim_def)
  from d have "distinct (filter ?P ?rows)"
    by (rule distinct_filter)
  then have "length (filter ?P ?rows) = card (set (filter ?P ?rows))"
    by (rule distinct_card [symmetric])
  also from inj_name have "\<dots> = card (UserTopic_topic_name ` set (filter ?P ?rows))"
    by (simp add: card_image)
  also from img have "\<dots> = card {t \<in> T. follows_topic_verbatim st u stream t}"
    by simp
  finally show ?thesis .
qed

lemma stream_topics_list:
  "stream_topics st stream =
     set (map Message_subject
       (filter (\<lambda>m. Message_recipient_id m = Stream_recipient_id stream \<and>
                     Message_is_channel_message m) (Messages st)))"
  by (auto simp: stream_topics_def)

lemma demo_topics: "stream_topics demo_db general = {''a'', ''b'', ''c''}"
  by (auto simp: stream_topics_list demo_db_def general_def)

lemma demo_follows: "follows_topic_verbatim demo_db 1 general t = (t = ''b'')"
  by (auto simp: follows_topic_verbatim_def demo_db_def general_def follows_b_def)

lemma demo_lookup_general: "access_stream_by_id demo_db u 10 = Inr general"
  by (simp add: access_stream_by_id_def check_access_def demo_db_def general_def)

lemma demo_lookup_general_name: "access_stream_by_name demo_db u ''general'' = Inr general"
  by (simp add: access_stream_by_name_def check_access_def demo_db_def general_def)

lemma demo_has_override: "has_override_on_stream demo_db u general = (u = 1)"
  by (simp add: has_override_on_stream_def demo_db_def general_def follows_b_def)

lemma demo_removal_general:
  "access_stream_to_remove_visibility_policy_by_id demo_db 1 10 msg = Inr general"
  by (simp add: access_stream_to_remove_visibility_policy_by_id_def check_removal_def
      demo_lookup_general demo_has_override)

subsection \<open>Stream references of the mute endpoint\<close>

text \<open>
  C7, as stated, fails: a call that gives both stream references and a topic longer
  than the bound is rejected for its topic by the decorator, before the check on the
  references is reached.
\<close>

theorem update_muted_topic_long_topic_precedes_reference_check:
  "update_muted_topic 60 5 demo_db 1 (Some 10) (Some ''general'') long_topic Add =
     (Inl TopicTooLong, demo_db) \<and>
   update_muted_topic 60 5 demo_db 1 None None long_topic Remove =
     (Inl TopicTooLong, demo_db)"
  by (simp add: update_muted_topic_def check_max_length_def long_topic_def)

text \<open>
  C7, amended. \<open>update_muted_topic\<close> is the one handler that takes both forms of
  stream reference. A call with a topic within the length bound that gives both the id
  and the name, or neither, fails with \<open>AmbiguousOrMissingStreamReference\<close> whatever
  the operation, and the database is left as it was. The outcome does not depend on
  the database, so no lookup has been consulted.
\<close>

theorem update_muted_topic_rejects_bad_reference:
  "length topic \<le> MAX_TOPIC_NAME_LENGTH \<Longrightarrow> (stream_id = None) = (stream = None) \<Longrightarrow>
   update_muted_topic MAX_TOPIC_NAME_LENGTH now st user_profile stream_id stream topic op =
     (Inl AmbiguousOrMissingStreamReference, st)"
  by (auto simp: update_muted_topic_def check_max_length_def
      check_for_exactly_one_stream_arg_def)

theorem update_muted_topic_rejects_bad_reference_witness:
  "length ''b'' \<le> (60::nat) \<and>
   update_muted_topic 60 5 demo_db 1 (Some 10) (Some ''general'') ''b'' Add =
     (Inl AmbiguousOrMissingStreamReference, demo_db) \<and>
   update_muted_topic 60 5 demo_db 1 None None ''b'' Remove =
     (Inl AmbiguousOrMissingStreamReference, demo_db)"
  using update_muted_topic_rejects_bad_reference
          [where topic = "''b''" and MAX_TOPIC_NAME_LENGTH = 60 and stream_id = "Some 10"
             and stream = "Some ''general''" and now = 5 and st = demo_db
             and user_profile = 1 and op = Add]
        update_muted_topic_rejects_bad_reference
          [where topic = "''b''" and MAX_TOPIC_NAME_LENGTH = 60 and stream_id = None
             and stream = None and now = 5 and st = demo_db and user_profile = 1
             and op = Remove]
  by simp

text \<open>
  C10. Once \<open>check_for_exactly_one_stream_arg\<close> has passed, a missing stream name
  means that the stream id is present; so no call of \<open>update_muted_topic\<close>, whatever
  its arguments, ends in the assertion of \<open>mute_topic\<close> or of \<open>unmute_topic\<close>.
\<close>

theorem update_muted_topic_assertion_unreachable:
  "(check_for_exactly_one_stream_arg stream_id stream = Inr () \<and> stream = None \<longrightarrow> stream_id \<noteq> None) \<and>
   fst (update_muted_topic MAX_TOPIC_NAME_LENGTH now st user_profile stream_id stream topic op)
     \<noteq> Inl AssertionError"
proof -
  have a: "check_access st user_profile found \<noteq> Inl AssertionError" for found
    by (simp add: check_access_def split: option.splits)
  have b: "check_removal st user_profile msg r \<noteq> Inl AssertionError" if "r \<noteq> Inl AssertionError" for msg r
    using that by (auto simp: check_removal_def split: sum.splits)
  have c: "check_for_exactly_one_stream_arg stream_id stream = Inr () \<and> stream = None \<longrightarrow> stream_id \<noteq> None"
    by (simp add: check_for_exactly_one_stream_arg_def)
  have d: "fst (update_muted_topic MAX_TOPIC_NAME_LENGTH now st user_profile stream_id stream
      topic op) \<noteq> Inl AssertionError"
    using a b
    by (cases op; cases stream_id; cases stream)
       (auto simp: update_muted_topic_def check_max_length_def
          check_for_exactly_one_stream_arg_def mute_topic_def
          unmute_topic_def access_stream_by_id_def access_stream_by_name_def
          access_stream_to_remove_visibility_policy_by_id_def
          access_stream_to_remove_visibility_policy_by_name_def split: sum.splits)
  from c d show ?thesis by blast
qed

theorem update_muted_topic_assertion_unreachable_witness:
  "check_for_exactly_one_stream_arg (Some 10) None = Inr () \<and>
   fst (update_muted_topic 60 5 demo_db 1 (Some 10) None ''b'' Add) = Inr () \<and>
   fst (update_muted_topic 60 5 demo_db 1 (Some 10) None ''b'' Remove) = Inr ()"
  using update_muted_topic_assertion_unreachable
          [where stream_id = "Some 10" and stream = None and MAX_TOPIC_NAME_LENGTH = 60
             and now = 5 and st = demo_db and user_profile = 1 and topic = "''b''"
             and op = Add]
  by (simp add: update_muted_topic_def check_max_length_def
      check_for_exactly_one_stream_arg_def mute_topic_def
      unmute_topic_def access_stream_by_id_def check_access_def
      access_stream_to_remove_visibility_policy_by_id_def check_removal_def
      has_override_on_stream_def demo_db_def general_def staff_def follows_b_def)

subsection \<open>Validation of the policy code\<close>

text \<open>
  C2, as stated, fails: when the topic is longer than the bound as well, the decorator
  rejects the topic, which is declared before the policy, and the failure is not
  \<open>InvalidPolicyValue\<close>.
\<close>

theorem update_user_topic_long_topic_precedes_policy_check:
  "(7::int) \<notin> set VisibilityPolicy_values \<and>
   update_user_topic 60 5 demo_db 1 10 long_topic 7 = (Inl TopicTooLong, demo_db)"
  by (simp add: update_user_topic_def check_max_length_def long_topic_def
      VisibilityPolicy_values_def)

text \<open>
  C2, amended. A call of \<open>update_user_topic\<close> with a topic within the length bound
  whose \<open>visibility_policy\<close> is not the code of a member of the enum fails with
  \<open>InvalidPolicyValue\<close> and leaves the database as it was. The outcome is the same
  for every database and every stream id, also where the stream lookup would fail: the
  lookup has not been reached.
\<close>

theorem update_user_topic_rejects_invalid_policy:
  "length topic \<le> MAX_TOPIC_NAME_LENGTH \<Longrightarrow> visibility_policy \<notin> range policy_code \<Longrightarrow>
   update_user_topic MAX_TOPIC_NAME_LENGTH now st user_profile stream_id topic
     visibility_policy = (Inl InvalidPolicyValue, st)"
  by (simp add: update_user_topic_def check_max_length_def check_int_in_validator_def
      range_policy_code)

theorem update_user_topic_rejects_invalid_policy_witness:
  "length ''b'' \<le> (60::nat) \<and> (7::int) \<notin> range policy_code \<and>
   access_stream_by_id demo_db 1 12 = Inl StreamNotFound \<and>
   update_user_topic 60 5 demo_db 1 12 ''b'' 7 = (Inl InvalidPolicyValue, demo_db)"
proof -
  have t: "length ''b'' \<le> (60::nat)" by simp
  have h: "(7::int) \<notin> range policy_code"
    by (simp add: range_policy_code VisibilityPolicy_values_def)
  have l: "access_stream_by_id demo_db 1 12 = Inl StreamNotFound"
    by (simp add: access_stream_by_id_def check_access_def demo_db_def general_def staff_def)
  from t h l
    update_user_topic_rejects_invalid_policy
      [OF t h, where now = 5 and st = demo_db and user_profile = 1 and stream_id = 12]
  show ?thesis by simp
qed

subsection \<open>Failures do not write\<close>

text \<open>
  C3. When \<open>mute_topic\<close>, \<open>unmute_topic\<close>, \<open>update_user_topic\<close> or
  \<open>update_muted_topic\<close> fails, with any error, the database after the call is the
  database before it: no override row has been created, changed or deleted.
\<close>

theorem failed_command_leaves_store_unchanged:
  "(fst (mute_topic now st user_profile stream_id stream_name topic date_muted) = Inl e \<longrightarrow>
      snd (mute_topic now st user_profile stream_id stream_name topic date_muted) = st) \<and>
   (fst (unmute_topic now st user_profile stream_id stream_name topic) = Inl e \<longrightarrow>
      snd (unmute_topic now st user_profile stream_id stream_name topic) = st) \<and>
   (fst (update_user_topic MAX_TOPIC_NAME_LENGTH now st user_profile sid topic
           visibility_policy) = Inl e \<longrightarrow>
      snd (update_user_topic MAX_TOPIC_NAME_LENGTH now st user_profile sid topic
             visibility_policy) = st) \<and>
   (fst (update_muted_topic MAX_TOPIC_NAME_LENGTH now st user_profile stream_id stream_name
           topic op) = Inl e \<longrightarrow>
      snd (update_muted_topic MAX_TOPIC_NAME_LENGTH now st user_profile stream_id stream_name
             topic op) = st)"
proof -
  have m: "fst (mute_topic now st user_profile i n topic d) = Inl e \<longrightarrow>
      snd (mute_topic now st user_profile i n topic d) = st" for i n d
    by (simp add: mute_topic_def split: sum.splits option.splits)
  have u: "fst (unmute_topic now st user_profile i n topic) = Inl e \<longrightarrow>
      snd (unmute_topic now st user_profile i n topic) = st" for i n
    by (simp add: unmute_topic_def Let_def split: sum.splits option.splits)
  have p: "fst (update_user_topic MAX_TOPIC_NAME_LENGTH now st user_profile sid topic
        visibility_policy) = Inl e \<longrightarrow>
      snd (update_user_topic MAX_TOPIC_NAME_LENGTH now st user_profile sid topic
        visibility_policy) = st"
    by (simp add: update_user_topic_def check_max_length_def split: sum.splits)
  have t: "fst (update_muted_topic MAX_TOPIC_NAME_LENGTH now st user_profile stream_id
        stream_name topic op) = Inl e \<longrightarrow>
      snd (update_muted_topic MAX_TOPIC_NAME_LENGTH now st user_profile stream_id
        stream_name topic op) = st"
    using m u
    by (simp add: update_muted_topic_def check_max_length_def split: sum.splits mute_op.splits)
  from m u p t show ?thesis by blast
qed

theorem failed_command_leaves_store_unchanged_witness:
  "mute_topic 5 demo_db 1 (Some 11) None ''b'' 9 = (Inl AccessDenied, demo_db) \<and>
   unmute_topic 5 demo_db 2 (Some 10) None ''b'' =
     (Inl (NoOverrideToRemove ''Topic is not muted''), demo_db) \<and>
   update_user_topic 60 5 demo_db 1 12 ''b'' 1 = (Inl StreamNotFound, demo_db) \<and>
   update_muted_topic 60 5 demo_db 1 (Some 11) None ''b'' Add = (Inl AccessDenied, demo_db)"
proof -
  have a: "fst (mute_topic 5 demo_db 1 (Some 11) None ''b'' 9) = Inl AccessDenied"
    by (simp add: mute_topic_def access_stream_by_id_def check_access_def demo_db_def
        general_def staff_def)
  have b: "fst (unmute_topic 5 demo_db 2 (Some 10) None ''b'') =
      Inl (NoOverrideToRemove ''Topic is not muted'')"
    by (simp add: unmute_topic_def access_stream_to_remove_visibility_policy_by_id_def
        check_removal_def has_override_on_stream_def access_stream_by_id_def check_access_def
        demo_db_def general_def staff_def follows_b_def)
  have c: "fst (update_user_topic 60 5 demo_db 1 12 ''b'' 1) = Inl StreamNotFound"
    by (simp add: update_user_topic_def check_max_length_def check_int_in_validator_def
        VisibilityPolicy_values_def
        access_stream_by_id_def check_access_def demo_db_def general_def staff_def)
  have d: "fst (update_muted_topic 60 5 demo_db 1 (Some 11) None ''b'' Add) = Inl AccessDenied"
    by (simp add: update_muted_topic_def check_max_length_def
        check_for_exactly_one_stream_arg_def
        mute_topic_def access_stream_by_id_def check_access_def demo_db_def
        general_def staff_def)
  from a b c d
    failed_command_leaves_store_unchanged
      [of 5 demo_db 1 "Some 11" None "''b''" 9 AccessDenied 60 12 1 Add]
    failed_command_leaves_store_unchanged
      [of 5 demo_db 2 "Some 10" None "''b''" 9 "NoOverrideToRemove ''Topic is not muted''"
         60 12 1 Add]
    failed_command_leaves_store_unchanged
      [of 5 demo_db 1 "Some 11" None "''b''" 9 StreamNotFound 60 12 1 Add]
  show ?thesis by (simp add: prod_eq_iff)
qed

subsection \<open>Topic counts\<close>

text \<open>
  C8. \<open>get_stream_topic_counts\<close> resolves the stream by its id alone. When no stream
  has the id, it fails with \<open>StreamNotFound\<close>. When a stream has the id, it returns
  counts, and the same counts whatever the access capability says about the user.
\<close>

theorem get_stream_topic_counts_gate:
  "((\<forall>s \<in> set (Streams st). Stream_id s \<noteq> stream_id) \<longrightarrow>
      get_stream_topic_counts st user_profile stream_id = Inl StreamNotFound) \<and>
   ((\<exists>s \<in> set (Streams st). Stream_id s = stream_id) \<longrightarrow>
      (\<exists>c. \<forall>acc. get_stream_topic_counts (st\<lparr>can_access := acc\<rparr>) user_profile stream_id = Inr c))"
proof (intro conjI impI)
  assume "\<forall>s \<in> set (Streams st). Stream_id s \<noteq> stream_id"
  then have "find (\<lambda>s. Stream_id s = stream_id) (Streams st) = None"
    by (simp add: find_None_iff)
  then show "get_stream_topic_counts st user_profile stream_id = Inl StreamNotFound"
    by (simp add: get_stream_topic_counts_def)
next
  assume "\<exists>s \<in> set (Streams st). Stream_id s = stream_id"
  then have "find (\<lambda>s. Stream_id s = stream_id) (Streams st) \<noteq> None"
    by (auto simp: find_None_iff)
  then obtain s where "find (\<lambda>s. Stream_id s = stream_id) (Streams st) = Some s"
    by blast
  then show "\<exists>c. \<forall>acc. get_stream_topic_counts (st\<lparr>can_access := acc\<rparr>) user_profile stream_id = Inr c"
    by (simp add: get_stream_topic_counts_def topic_names_of_def Let_def)
qed

theorem get_stream_topic_counts_gate_witness:
  "get_stream_topic_counts demo_db 1 12 = Inl StreamNotFound \<and>
   \<not> can_access demo_db 1 11 \<and>
   (\<exists>c. \<forall>acc. get_stream_topic_counts (demo_db\<lparr>can_access := acc\<rparr>) 1 11 = Inr c)"
  using get_stream_topic_counts_gate [of demo_db 12 1] get_stream_topic_counts_gate [of demo_db 11 1]
  by (simp add: demo_db_def general_def staff_def)

text \<open>
  C1, as stated, fails. The stream has the one topic \<open>Release\<close>, and the user's
  override of that topic's key, stored as \<open>release\<close>, has policy \<open>FOLLOWED\<close>:
  one topic of the stream is followed, and \<open>followed_topics\<close> is 0.
\<close>

theorem followed_count_misses_followed_topic:
  "find (\<lambda>s. Stream_id s = 10) (Streams (release_db ''release'')) = Some general \<and>
   override_rows_unique (release_db ''release'') \<and>
   {t \<in> stream_topics (release_db ''release'') general.
      follows_topic (release_db ''release'') 1 general t} = {''Release''} \<and>
   get_stream_topic_counts (release_db ''release'') 1 10 =
     Inr \<lparr>counts_stream_id = 10, total_topics = 1, followed_topics = 0\<rparr>"
proof -
  have t: "stream_topics (release_db ''release'') general = {''Release''}"
    by (auto simp: stream_topics_list release_db_def general_def)
  have f: "follows_topic (release_db ''release'') 1 general ''Release''"
    by (simp add: follows_topic_def same_key_def release_db_def general_def
        normalize_topic_def strip_def is_space_def lower_char_def)
  have c: "get_stream_topic_counts (release_db ''release'') 1 10 =
     Inr \<lparr>counts_stream_id = 10, total_topics = 1, followed_topics = 0\<rparr>"
    by (simp add: get_stream_topic_counts_def topic_names_of_def release_db_def general_def
        Let_def)
  have u: "override_rows_unique (release_db ''release'')"
    by (simp add: override_rows_unique_def release_db_def)
  have s: "find (\<lambda>s. Stream_id s = 10) (Streams (release_db ''release'')) = Some general"
    by (simp add: release_db_def general_def)
  from t f have "{t \<in> stream_topics (release_db ''release'') general.
      follows_topic (release_db ''release'') 1 general t} = {''Release''}"
    by auto
  with s u c show ?thesis by simp
qed

text \<open>
  C1, amended. For a stream that \<open>stream_id\<close> resolves to, and an override table with
  at most one row for a user, a stream and a topic name, \<open>get_stream_topic_counts\<close>
  returns the stream id, as \<open>total_topics\<close> the number of distinct topic names among
  the messages of the stream, and as \<open>followed_topics\<close> the number of those topic
  names under which, character for character, the user has an override row with policy
  \<open>FOLLOWED\<close>.
\<close>

theorem get_stream_topic_counts_correct:
  assumes found: "find (\<lambda>s. Stream_id s = stream_id) (Streams st) = Some stream"
    and uniq: "override_rows_unique st"
  shows "get_stream_topic_counts st user_profile stream_id =
           Inr \<lparr>counts_stream_id = stream_id,
                total_topics = card (stream_topics st stream),
                followed_topics =
                  card {t \<in> stream_topics st stream. follows_topic_verbatim st user_profile stream t}\<rparr>"
  using found
  by (simp add: get_stream_topic_counts_def Let_def length_topic_names_of
      followed_rows_count [OF uniq] set_topic_names_of)

theorem get_stream_topic_counts_correct_witness:
  "find (\<lambda>s. Stream_id s = 10) (Streams demo_db) = Some general \<and>
   override_rows_unique demo_db \<and>
   stream_topics demo_db general = {''a'', ''b'', ''c''} \<and>
   {t \<in> stream_topics demo_db general. follows_topic_verbatim demo_db 1 general t} = {''b''} \<and>
   get_stream_topic_counts demo_db 1 10 =
     Inr \<lparr>counts_stream_id = 10, total_topics = 3, followed_topics = 1\<rparr>"
proof -
  have f: "find (\<lambda>s. Stream_id s = 10) (Streams demo_db) = Some general"
    by (simp add: demo_db_def general_def)
  have u: "override_rows_unique demo_db"
    by (simp add: override_rows_unique_def demo_db_def)
  have s: "{t \<in> stream_topics demo_db general. follows_topic_verbatim demo_db 1 general t} = {''b''}"
    by (auto simp: demo_topics demo_follows)
  from get_stream_topic_counts_correct [OF f u, of 1] f u s demo_topics
  show ?thesis by simp
qed

text \<open>
  C9, as stated, fails. The count of followed topics compares the stored topic name of
  an override with the subjects of the messages character by character: an override
  stored as \<open>release\<close> or as \<open>Release\<close> followed by a blank is the same topic as
  \<open>Release\<close> up to case and surrounding whitespace, and it is not counted.
\<close>

theorem followed_count_is_case_sensitive:
  "normalize_topic ''release'' = normalize_topic ''Release'' \<and>
   normalize_topic ''Release '' = normalize_topic ''Release'' \<and>
   get_stream_topic_counts (release_db ''Release'') 1 10 =
     Inr \<lparr>counts_stream_id = 10, total_topics = 1, followed_topics = 1\<rparr> \<and>
   get_stream_topic_counts (release_db ''release'') 1 10 =
     Inr \<lparr>counts_stream_id = 10, total_topics = 1, followed_topics = 0\<rparr> \<and>
   get_stream_topic_counts (release_db ''Release '') 1 10 =
     Inr \<lparr>counts_stream_id = 10, total_topics = 1, followed_topics = 0\<rparr>"
  by (simp add: normalize_topic_def strip_def is_space_def lower_char_def
      get_stream_topic_counts_def topic_names_of_def release_db_def general_def Let_def)

text \<open>
  C9, amended. The count of followed topics matches by equality of strings, the
  comparison that the scan for distinct topic names uses too: an override row of the user
  on the stream with policy \<open>FOLLOWED\<close> is counted exactly when its stored topic name
  is the subject of some channel message of the stream. So every listed topic that the
  user follows under exactly that name is counted.
\<close>

theorem followed_count_matches_exactly:
  assumes found: "find (\<lambda>s. Stream_id s = stream_id) (Streams st) = Some stream"
  shows "\<exists>c. get_stream_topic_counts st user_profile stream_id = Inr c \<and>
           followed_topics c =
             length (filter
               (\<lambda>r. UserTopic_user_profile r = user_profile \<and>
                    UserTopic_stream r = Stream_id stream \<and>
                    UserTopic_visibility_policy r = FOLLOWED \<and>
                    (\<exists>m \<in> set (Messages st).
                       Message_recipient_id m = Stream_recipient_id stream \<and>
                       Message_is_channel_message m \<and>
                       Message_subject m = UserTopic_topic_name r))
               (UserTopics st)) \<and>
           card {t \<in> stream_topics st stream. follows_topic_verbatim st user_profile stream t}
             \<le> followed_topics c"
proof -
  let ?T = "stream_topics st stream"
  let ?P = "\<lambda>r. UserTopic_user_profile r = user_profile \<and> UserTopic_stream r = Stream_id stream \<and>
                 UserTopic_visibility_policy r = FOLLOWED \<and> UserTopic_topic_name r \<in> ?T"
  let ?Q = "\<lambda>r. UserTopic_user_profile r = user_profile \<and>
                    UserTopic_stream r = Stream_id stream \<and>
                    UserTopic_visibility_policy r = FOLLOWED \<and>
                    (\<exists>m \<in> set (Messages st).
                       Message_recipient_id m = Stream_recipient_id stream \<and>
                       Message_is_channel_message m \<and>
                       Message_subject m = UserTopic_topic_name r)"
  let ?c = "\<lparr>counts_stream_id = stream_id, total_topics = length (topic_names_of st (Stream_recipient_id stream)),
             followed_topics = length (filter ?P (UserTopics st))\<rparr>"
  from found have res: "get_stream_topic_counts st user_profile stream_id = Inr ?c"
    by (simp add: get_stream_topic_counts_def Let_def set_topic_names_of)
  have pq: "?P = ?Q"
    by (rule ext) (force simp: stream_topics_def image_iff)
  have img: "{t \<in> ?T. follows_topic_verbatim st user_profile stream t} =
      UserTopic_topic_name ` set (filter ?P (UserTopics st))"
    by (auto simp: follows_topic_verbatim_def)
  have "card (UserTopic_topic_name ` set (filter ?P (UserTopics st))) \<le>
      card (set (filter ?P (UserTopics st)))"
    by (rule card_image_le) simp
  also have "\<dots> \<le> length (filter ?P (UserTopics st))"
    by (rule card_length)
  finally have le: "card {t \<in> ?T. follows_topic_verbatim st user_profile stream t} \<le>
      length (filter ?P (UserTopics st))"
    by (simp only: img)
  have eq: "followed_topics ?c = length (filter ?Q (UserTopics st))"
    by (simp add: pq)
  from res eq le show ?thesis
    by (intro exI [of _ ?c]) simp
qed

theorem followed_count_matches_exactly_witness:
  "find (\<lambda>s. Stream_id s = 10) (Streams (release_db ''Release'')) = Some general \<and>
   ''Release'' \<in> stream_topics (release_db ''Release'') general \<and>
   follows_topic_verbatim (release_db ''Release'') 1 general ''Release'' \<and>
   (\<exists>c. get_stream_topic_counts (release_db ''Release'') 1 10 = Inr c \<and> followed_topics c = 1)"
proof -
  have f: "find (\<lambda>s. Stream_id s = 10) (Streams (release_db ''Release'')) = Some general"
    by (simp add: release_db_def general_def)
  have t: "''Release'' \<in> stream_topics (release_db ''Release'') general"
    by (simp add: stream_topics_list release_db_def general_def)
  have w: "follows_topic_verbatim (release_db ''Release'') 1 general ''Release''"
    by (simp add: follows_topic_verbatim_def release_db_def general_def)
  from followed_count_matches_exactly [OF f, of 1]
  obtain c where c: "get_stream_topic_counts (release_db ''Release'') 1 10 = Inr c"
    and n: "followed_topics c =
             length (filter
               (\<lambda>r. UserTopic_user_profile r = 1 \<and>
                    UserTopic_stream r = Stream_id general \<and>
                    UserTopic_visibility_policy r = FOLLOWED \<and>
                    (\<exists>m \<in> set (Messages (release_db ''Release'')).
                       Message_recipient_id m = Stream_recipient_id general \<and>
                       Message_is_channel_message m \<and>
                       Message_subject m = UserTopic_topic_name r))
               (UserTopics (release_db ''Release'')))"
    by blast
  from n have "followed_topics c = 1"
    by (simp add: release_db_def general_def)
  with c f t w show ?thesis by blast
qed

subsection \<open>Setting and clearing a policy\<close>

text \<open>
  C4, as stated, fails: with a topic longer than the bound the call is rejected by the
  decorator; the stream, which the lookup would resolve, is not consulted and no
  override is written.
\<close>

theorem update_user_topic_long_topic_writes_nothing:
  "access_stream_by_id demo_db 2 10 = Inr general \<and>
   update_user_topic 60 5 demo_db 2 10 long_topic (policy_code MUTED) =
     (Inl TopicTooLong, demo_db)"
  by (simp add: update_user_topic_def check_max_length_def long_topic_def
      demo_lookup_general)

text \<open>
  C4, amended. \<open>update_user_topic\<close> with a topic within the length bound and the
  code of a policy \<open>p\<close>. When \<open>p\<close> is
  \<open>INHERIT\<close>, the outcome is that of the removal lookup by id with the message
  \<open>Invalid channel ID\<close>: its error, with the database unchanged (in particular
  \<open>NoOverrideToRemove\<close> with that message when the stream resolves and the user has no
  override on it), or success with the override of the user, the stream and the topic
  cleared. Otherwise the outcome is that of the ordinary lookup by id: its error, with
  the database unchanged, or success with the override set to \<open>p\<close> and
  \<open>last_updated\<close> the current time.
\<close>

theorem update_user_topic_resolves_then_sets:
  assumes within: "length topic \<le> MAX_TOPIC_NAME_LENGTH"
  shows
  "(p = INHERIT \<longrightarrow>
      (case access_stream_to_remove_visibility_policy_by_id st user_profile stream_id
              ''Invalid channel ID'' of
         Inl e \<Rightarrow>
           update_user_topic MAX_TOPIC_NAME_LENGTH now st user_profile stream_id topic
             (policy_code p) = (Inl e, st)
       | Inr stream \<Rightarrow>
           fst (update_user_topic MAX_TOPIC_NAME_LENGTH now st user_profile stream_id topic
                  (policy_code p)) = Inr () \<and>
           override_cleared st
             (snd (update_user_topic MAX_TOPIC_NAME_LENGTH now st user_profile stream_id topic
                     (policy_code p)))
             user_profile stream topic)) \<and>
   (p \<noteq> INHERIT \<longrightarrow>
      (case access_stream_by_id st user_profile stream_id of
         Inl e \<Rightarrow>
           update_user_topic MAX_TOPIC_NAME_LENGTH now st user_profile stream_id topic
             (policy_code p) = (Inl e, st)
       | Inr stream \<Rightarrow>
           fst (update_user_topic MAX_TOPIC_NAME_LENGTH now st user_profile stream_id topic
                  (policy_code p)) = Inr () \<and>
           override_set st
             (snd (update_user_topic MAX_TOPIC_NAME_LENGTH now st user_profile stream_id topic
                     (policy_code p)))
             user_profile stream topic p now)) \<and>
   (p = INHERIT \<and> access_stream_by_id st user_profile stream_id = Inr s \<and>
    \<not> has_override_on_stream st user_profile s \<longrightarrow>
      update_user_topic MAX_TOPIC_NAME_LENGTH now st user_profile stream_id topic
        (policy_code p) = (Inl (NoOverrideToRemove ''Invalid channel ID''), st))"
proof -
  have len: "check_max_length MAX_TOPIC_NAME_LENGTH topic = Inr topic"
    using within by (simp add: check_max_length_def)
  have valid: "check_int_in_validator VisibilityPolicy_values (policy_code p) = Inr (policy_code p)"
    using range_policy_code by (auto simp: check_int_in_validator_def)
  have inh: "(policy_code p = policy_code INHERIT) = (p = INHERIT)"
    by (cases p) simp_all
  show ?thesis
  proof (intro conjI impI)
    assume p: "p = INHERIT"
    show "case access_stream_to_remove_visibility_policy_by_id st user_profile stream_id
              ''Invalid channel ID'' of
         Inl e \<Rightarrow>
           update_user_topic MAX_TOPIC_NAME_LENGTH now st user_profile stream_id topic
             (policy_code p) = (Inl e, st)
       | Inr stream \<Rightarrow>
           fst (update_user_topic MAX_TOPIC_NAME_LENGTH now st user_profile stream_id topic
                  (policy_code p)) = Inr () \<and>
           override_cleared st
             (snd (update_user_topic MAX_TOPIC_NAME_LENGTH now st user_profile stream_id topic
                     (policy_code p)))
             user_profile stream topic"
      using valid inh p len
      by (simp add: update_user_topic_def policy_of_code_inverse [of INHERIT, simplified]
          do_set_inherit_cleared split: sum.splits)
  next
    assume p: "p \<noteq> INHERIT"
    show "case access_stream_by_id st user_profile stream_id of
         Inl e \<Rightarrow>
           update_user_topic MAX_TOPIC_NAME_LENGTH now st user_profile stream_id topic
             (policy_code p) = (Inl e, st)
       | Inr stream \<Rightarrow>
           fst (update_user_topic MAX_TOPIC_NAME_LENGTH now st user_profile stream_id topic
                  (policy_code p)) = Inr () \<and>
           override_set st
             (snd (update_user_topic MAX_TOPIC_NAME_LENGTH now st user_profile stream_id topic
                     (policy_code p)))
             user_profile stream topic p now"
      using valid inh p len do_set_upsert [OF p, of st now user_profile _ topic None]
      by (simp add: update_user_topic_def policy_of_code_inverse split: sum.splits)
  next
    assume "p = INHERIT \<and> access_stream_by_id st user_profile stream_id = Inr s \<and>
      \<not> has_override_on_stream st user_profile s"
    then show "update_user_topic MAX_TOPIC_NAME_LENGTH now st user_profile stream_id topic
        (policy_code p) = (Inl (NoOverrideToRemove ''Invalid channel ID''), st)"
      using valid len
      by (simp add: update_user_topic_def access_stream_to_remove_visibility_policy_by_id_def
          check_removal_def)
  qed
qed

theorem update_user_topic_resolves_then_sets_witness:
  "length ''b'' \<le> (60::nat) \<and> length ''q'' \<le> (60::nat) \<and>
   access_stream_to_remove_visibility_policy_by_id demo_db 1 10 ''Invalid channel ID'' = Inr general \<and>
   fst (update_user_topic 60 5 demo_db 1 10 ''b'' 0) = Inr () \<and>
   override_cleared demo_db (snd (update_user_topic 60 5 demo_db 1 10 ''b'' 0)) 1 general ''b'' \<and>
   access_stream_by_id demo_db 2 10 = Inr general \<and>
   fst (update_user_topic 60 5 demo_db 2 10 ''q'' 2) = Inr () \<and>
   override_set demo_db (snd (update_user_topic 60 5 demo_db 2 10 ''q'' 2)) 2 general ''q'' UNMUTED 5 \<and>
   \<not> has_override_on_stream demo_db 2 general \<and>
   update_user_topic 60 5 demo_db 2 10 ''q'' 0 =
     (Inl (NoOverrideToRemove ''Invalid channel ID''), demo_db)"
  using update_user_topic_resolves_then_sets
          [where p = INHERIT and st = demo_db and user_profile = 1 and stream_id = 10
             and now = 5 and topic = "''b''" and MAX_TOPIC_NAME_LENGTH = 60]
        update_user_topic_resolves_then_sets
          [where p = UNMUTED and st = demo_db and user_profile = 2 and stream_id = 10
             and now = 5 and topic = "''q''" and MAX_TOPIC_NAME_LENGTH = 60]
        update_user_topic_resolves_then_sets
          [where p = INHERIT and st = demo_db and user_profile = 2 and stream_id = 10
             and now = 5 and topic = "''q''" and s = general
             and MAX_TOPIC_NAME_LENGTH = 60]
  by (simp add: demo_lookup_general demo_removal_general demo_has_override)




text \<open>
  C5, as stated, fails: a user who has an override on another topic of the stream, and
  none for the topic named, passes the removal lookup, and \<open>unmute_topic\<close> succeeds
  with nothing to remove.
\<close>

theorem unmute_topic_accepts_key_without_override:
  "filter (same_key 1 general ''zzz'') (UserTopics demo_db) = [] \<and>
   unmute_topic 5 demo_db 1 (Some 10) None ''zzz'' = (Inr (), demo_db)"
proof -
  have k: "filter (same_key 1 general ''zzz'') (UserTopics demo_db) = []"
    by (simp add: same_key_def demo_db_def follows_b_def general_def normalize_topic_def
        strip_def is_space_def lower_char_def)
  then have "filter (\<lambda>r. \<not> same_key 1 general ''zzz'' r) (UserTopics demo_db) = UserTopics demo_db"
    by (simp add: filter_empty_conv)
  then have "do_set_user_topic_visibility_policy 5 demo_db 1 general ''zzz'' INHERIT None = demo_db"
    by (simp add: do_set_user_topic_visibility_policy_def Let_def)
  with k show ?thesis
    by (simp add: unmute_topic_def Let_def demo_removal_general)
qed

text \<open>
  C5, amended. \<open>unmute_topic\<close> with a stream name resolves the stream by name, without
  a name and with an id by id, both in removal mode with the message
  \<open>Topic is not muted\<close>. A failed lookup is the call's failure and leaves the database
  unchanged; when the stream resolves and the user has no override on any topic of it,
  that failure is \<open>NoOverrideToRemove\<close> with the message. After a successful lookup the
  override of the user, the stream and the topic is cleared, which is what setting the
  policy \<open>INHERIT\<close> does. With neither reference the call fails its assertion.
\<close>

theorem unmute_topic_resolves_then_clears:
  "(case access_stream_to_remove_visibility_policy_by_name st user_profile name
           ''Topic is not muted'' of
      Inl e \<Rightarrow> unmute_topic now st user_profile stream_id (Some name) topic_name = (Inl e, st)
    | Inr stream \<Rightarrow>
        unmute_topic now st user_profile stream_id (Some name) topic_name =
          (Inr (),
           do_set_user_topic_visibility_policy now st user_profile stream topic_name INHERIT None) \<and>
        override_cleared st
          (snd (unmute_topic now st user_profile stream_id (Some name) topic_name))
          user_profile stream topic_name) \<and>
   (case access_stream_to_remove_visibility_policy_by_id st user_profile i
           ''Topic is not muted'' of
      Inl e \<Rightarrow> unmute_topic now st user_profile (Some i) None topic_name = (Inl e, st)
    | Inr stream \<Rightarrow>
        unmute_topic now st user_profile (Some i) None topic_name =
          (Inr (),
           do_set_user_topic_visibility_policy now st user_profile stream topic_name INHERIT None) \<and>
        override_cleared st
          (snd (unmute_topic now st user_profile (Some i) None topic_name))
          user_profile stream topic_name) \<and>
   (access_stream_by_name st user_profile name = Inr stream \<and>
    \<not> has_override_on_stream st user_profile stream \<longrightarrow>
      unmute_topic now st user_profile stream_id (Some name) topic_name =
        (Inl (NoOverrideToRemove ''Topic is not muted''), st)) \<and>
   (access_stream_by_id st user_profile i = Inr stream \<and>
    \<not> has_override_on_stream st user_profile stream \<longrightarrow>
      unmute_topic now st user_profile (Some i) None topic_name =
        (Inl (NoOverrideToRemove ''Topic is not muted''), st)) \<and>
   unmute_topic now st user_profile None None topic_name = (Inl AssertionError, st)"
  by (simp add: unmute_topic_def Let_def do_set_inherit_cleared
      access_stream_to_remove_visibility_policy_by_name_def
      access_stream_to_remove_visibility_policy_by_id_def check_removal_def
      split: sum.splits)

theorem unmute_topic_resolves_then_clears_witness:
  "access_stream_to_remove_visibility_policy_by_id demo_db 1 10 ''Topic is not muted'' =
     Inr general \<and>
   fst (unmute_topic 5 demo_db 1 (Some 10) None ''b'') = Inr () \<and>
   UserTopics (snd (unmute_topic 5 demo_db 1 (Some 10) None ''b'')) = [] \<and>
   access_stream_by_name demo_db 2 ''general'' = Inr general \<and>
   \<not> has_override_on_stream demo_db 2 general \<and>
   unmute_topic 5 demo_db 2 None (Some ''general'') ''b'' =
     (Inl (NoOverrideToRemove ''Topic is not muted''), demo_db)"
proof -
  have k: "filter (\<lambda>r. \<not> same_key 1 general ''b'' r) (UserTopics demo_db) = []"
    by (simp add: same_key_def demo_db_def follows_b_def general_def)
  from unmute_topic_resolves_then_clears
         [where st = demo_db and user_profile = 1 and i = 10 and now = 5 and topic_name = "''b''"
            and name = "''nowhere''" and stream_id = None and stream = general]
  have a: "fst (unmute_topic 5 demo_db 1 (Some 10) None ''b'') = Inr () \<and>
      UserTopics (snd (unmute_topic 5 demo_db 1 (Some 10) None ''b'')) = []"
    by (simp add: demo_removal_general override_cleared_def do_set_inherit_rows k)
  from unmute_topic_resolves_then_clears
         [where st = demo_db and user_profile = 2 and i = 10 and now = 5 and topic_name = "''b''"
            and name = "''general''" and stream_id = None and stream = general]
  have b: "unmute_topic 5 demo_db 2 None (Some ''general'') ''b'' =
     (Inl (NoOverrideToRemove ''Topic is not muted''), demo_db)"
    by (simp add: demo_lookup_general_name demo_has_override)
  from a b show ?thesis
    by (simp add: demo_removal_general demo_lookup_general_name demo_has_override)
qed

end
